theory Spec2Isabelle
  imports Complex_Main "HOL-Library.Word"
begin

section \<open>F4Vision: the per-cycle detection and aim pipeline\<close>

text \<open>
  A shallow embedding of \<^verbatim>\<open>F4Vision_helper.py\<close>: the class \<^verbatim>\<open>F4Vision\<close> with its
  methods \<^verbatim>\<open>detect_all_pixels\<close>, \<^verbatim>\<open>cluster_similar_enemies\<close>,
  \<^verbatim>\<open>detect_with_pxd_patterns\<close>, \<^verbatim>\<open>perfect_target_lock\<close>, \<^verbatim>\<open>predict\<close> and
  \<^verbatim>\<open>process\<close>.

  Conventions of the model.
  \<^item> Python \<^verbatim>\<open>int\<close> is \<open>int\<close>. numpy's \<^verbatim>\<open>int32\<close> statistics are \<open>int\<close> as well: they
    are pixel coordinates and pixel counts of a frame and stay far below \<open>2^31\<close>.
  \<^item> Python \<^verbatim>\<open>float\<close> is \<open>real\<close>: every float operation is taken at its exact value,
    the rounding of binary64 arithmetic is not modelled. Multiplication by \<^verbatim>\<open>0x10000\<close>
    and the comparison of an integer square root with an integer are exact in binary64
    too.
  \<^item> An exception is a value of \<open>py_error\<close>; a function that can raise returns a sum.
  \<^item> \<^verbatim>\<open>self.log\<close> appends to a list of log events.
  \<^item> The calls into OpenCV and numpy are the fields of a record \<open>cv2\<close> of operations on
    an image type \<open>'img\<close>, passed to every function that draws or detects.
\<close>

subsection \<open>Python numbers and bytes\<close>

datatype py_error = OverflowError | ValueError | TypeError | KeyError | ImportError | Cv2Error

type_synonym byte = "8 word"

text \<open>\<^verbatim>\<open>int(x)\<close> on a float truncates towards zero.\<close>

definition py_int :: "real \<Rightarrow> int" where
  "py_int x = (if 0 \<le> x then \<lfloor>x\<rfloor> else \<lceil>x\<rceil>)"

text \<open>
  The big-endian digits of \<open>n\<close> in base 256, \<open>k\<close> of them; for a negative \<open>n\<close> these are
  the digits of its two's complement.
\<close>

fun be_bytes :: "nat \<Rightarrow> int \<Rightarrow> byte list" where
  "be_bytes 0 n = []"
| "be_bytes (Suc k) n = word_of_int (n div 256 ^ k) # be_bytes k n"

text \<open>
  \<^verbatim>\<open>n.to_bytes(len, byteorder="big", signed=...)\<close>: raises \<^verbatim>\<open>OverflowError\<close> when \<open>n\<close>
  does not fit.
\<close>

definition to_bytes_big :: "int \<Rightarrow> nat \<Rightarrow> bool \<Rightarrow> py_error + byte list" where
  "to_bytes_big n len is_signed =
     (if is_signed
      then (if - (2 ^ (8 * len - 1)) \<le> n \<and> n < 2 ^ (8 * len - 1)
            then Inr (be_bytes len n) else Inl OverflowError)
      else (if 0 \<le> n \<and> n < 2 ^ (8 * len)
            then Inr (be_bytes len n) else Inl OverflowError))"

text \<open>
  The receiving side: \<^verbatim>\<open>int.from_bytes(bs, byteorder="big", signed=...)\<close>.
\<close>

definition from_bytes_big :: "byte list \<Rightarrow> bool \<Rightarrow> int" where
  "from_bytes_big bs is_signed =
     (let u = foldl (\<lambda>acc b. acc * 256 + uint b) 0 bs
      in if is_signed \<and> u \<ge> 2 ^ (8 * length bs - 1) then u - 2 ^ (8 * length bs) else u)"

definition in_i32 :: "int \<Rightarrow> bool" where
  "in_i32 n = (- 2147483648 \<le> n \<and> n < 2147483648)"

subsection \<open>Log events\<close>

datatype log_event =
    Filtered_enemy int int int int int int
  | Error_in_pixel_detection py_error
  | Found_raw_enemies nat
  | Reduced_to_clusters nat nat
  | Aim_button_debug string int
  | Error_reading_aimActivationButton py_error
  | Gcv_data_debug int

subsection \<open>The lock vector: \<^verbatim>\<open>perfect_target_lock\<close>\<close>

definition perfect_target_lock :: "real \<Rightarrow> real \<Rightarrow> real \<Rightarrow> real \<Rightarrow> real \<times> real" where
  "perfect_target_lock target_x target_y speedX speedY =
    (let crosshair_x = 960; crosshair_y = 540;
         delta_x = target_x - crosshair_x;
         delta_y = target_y - crosshair_y;
         distance = sqrt (delta_x ^ 2 + delta_y ^ 2)
     in if distance < 2 then (0, 0)
        else
          let base_multiplier = 0.02;
              move_x = delta_x * base_multiplier * speedX;
              move_y = delta_y * base_multiplier * speedY;
              min_move = 0.5;
              move_x = (if \<bar>move_x\<bar> < min_move \<and> \<bar>delta_x\<bar> > 0.5
                        then (if delta_x > 0 then min_move else - min_move) else move_x);
              move_y = (if \<bar>move_y\<bar> < min_move \<and> \<bar>delta_y\<bar> > 0.5
                        then (if delta_y > 0 then min_move else - min_move) else move_y)
          in (move_x, move_y))"

subsection \<open>The aim button and the output bytes of \<^verbatim>\<open>process\<close>\<close>

text \<open>
  \<^verbatim>\<open>get_aim_button_id\<close> reloads the settings module and reads \<^verbatim>\<open>aimActivationButton\<close>.
  Its argument is what that read gives: an exception, no such attribute, or the name.
\<close>

definition button_mapping :: "string \<Rightarrow> int option" where
  "button_mapping name =
     (if name = ''BUTTON_5'' then Some 5
      else if name = ''BUTTON_6'' then Some 6
      else if name = ''BUTTON_7'' then Some 7
      else if name = ''BUTTON_8'' then Some 8
      else if name = ''L1'' then Some 5
      else if name = ''L2'' then Some 6
      else if name = ''R1'' then Some 7
      else if name = ''R2'' then Some 8
      else None)"

definition get_aim_button_id :: "py_error + string option \<Rightarrow> int \<times> log_event list" where
  "get_aim_button_id settings_read =
     (case settings_read of
        Inl e \<Rightarrow> (7, [Error_reading_aimActivationButton e])
      | Inr attr \<Rightarrow>
          let button_constant = (case attr of None \<Rightarrow> ''BUTTON_7'' | Some name \<Rightarrow> name);
              button_id = (case button_mapping button_constant of None \<Rightarrow> 7 | Some i \<Rightarrow> i)
          in (button_id, [Aim_button_debug button_constant button_id]))"

text \<open>
  The three \<^verbatim>\<open>gcvdata.extend(...)\<close> statements of \<^verbatim>\<open>process\<close>. \<^verbatim>\<open>gcvdata\<close> is
  a mutable byte array: when a \<^verbatim>\<open>to_bytes\<close> raises, the bytes appended before it stay,
  so the error comes with the buffer as it is then.
\<close>

definition extend_gcvdata ::
  "byte list \<Rightarrow> real \<Rightarrow> real \<Rightarrow> int \<Rightarrow> (py_error \<times> byte list) + byte list" where
  "extend_gcvdata gcvdata rightStickX rightStickY aim_button_id =
     (case to_bytes_big (py_int (rightStickX * 65536)) 4 True of
        Inl e \<Rightarrow> Inl (e, gcvdata)
      | Inr bx \<Rightarrow>
          let gcvdata = gcvdata @ bx
          in case to_bytes_big (py_int (rightStickY * 65536)) 4 True of
               Inl e \<Rightarrow> Inl (e, gcvdata)
             | Inr by \<Rightarrow>
                 let gcvdata = gcvdata @ by
                 in case to_bytes_big aim_button_id 2 False of
                      Inl e \<Rightarrow> Inl (e, gcvdata)
                    | Inr bb \<Rightarrow> Inr (gcvdata @ bb))"

subsection \<open>Detections, patterns and the object state\<close>

text \<open>
  A detection is the dictionary built by \<^verbatim>\<open>detect_all_pixels\<close>; a pattern is the
  dictionary stored by \<^verbatim>\<open>load_single_pxd_file\<close>, which always sets the colour range
  and the size range. \<open>size_width\<close> is \<^verbatim>\<open>pattern['size']['width']\<close>, a pair
  \<open>(min, max)\<close>.
\<close>

type_synonym bgr = "int \<times> int \<times> int"

record detection =
  coords :: "int \<times> int \<times> int \<times> int"
  confidence :: real
  width :: int
  height :: int
  area :: int
  center :: "int \<times> int"
  pixel_count :: int

record pattern =
  color_lower_bgr :: bgr
  color_upper_bgr :: bgr
  size_width :: "int \<times> int"
  size_height :: "int \<times> int"
  source_file :: string

text \<open>
  The fields of \<^verbatim>\<open>self\<close> that a cycle reads. \<^verbatim>\<open>get_fresh_settings\<close> and
  \<^verbatim>\<open>check_pxd_control\<close> refresh them from files at the start of a cycle; the record
  is the state after that refresh.
\<close>

record f4vision =
  cached_bbox_width :: int
  cached_bbox_height :: int
  cached_showBoundingBox :: bool
  cached_adaptiveBoundingBox :: bool
  cached_manualOveride :: bool
  cached_speedX :: real
  cached_speedY :: real
  cached_aimSmoothing :: bool
  cached_colorConfidence :: real
  cached_esp_lines_enabled :: bool
  cached_esp_box_enabled :: bool
  cached_crosshair_enabled :: bool
  cached_show_distance_text :: bool
  cached_enemy_location_enabled :: bool
  cached_aimOffsetX :: int
  cached_aimOffsetY :: int
  cached_manualOverridePercentage :: real
  detection_history :: "detection list list"
  pxd_patterns :: "pattern list"

subsection \<open>The image library\<close>

text \<open>
  The operations of OpenCV and numpy that the pipeline calls, on an image type \<open>'img\<close>.
  A drawing operation returns the image it has drawn on. \<open>cv_components img lo hi\<close> is
  \<^verbatim>\<open>cv2.inRange(img, lo, hi)\<close> followed by
  \<^verbatim>\<open>cv2.connectedComponentsWithStats(mask, connectivity=8)\<close>: an exception, or the rows
  \<open>(left, top, width, height, area)\<close> of \<^verbatim>\<open>stats\<close>, one for each label, row 0 being
  the background. \<open>np_slice img y1 y2 x1 x2\<close> is \<^verbatim>\<open>img[y1:y2, x1:x2, :]\<close>.
\<close>

datatype font = FONT_HERSHEY_SIMPLEX | FONT_HERSHEY_PLAIN

datatype label =
    Text string
  | Text_px int
  | Text_Dist_px int

record 'img cv2 =
  cv_components :: "'img \<Rightarrow> bgr \<Rightarrow> bgr \<Rightarrow> py_error + (int \<times> int \<times> int \<times> int \<times> int) list"
  cv_rectangle :: "'img \<Rightarrow> int \<times> int \<Rightarrow> int \<times> int \<Rightarrow> bgr \<Rightarrow> int \<Rightarrow> 'img"
  cv_line :: "'img \<Rightarrow> int \<times> int \<Rightarrow> int \<times> int \<Rightarrow> bgr \<Rightarrow> int \<Rightarrow> 'img"
  cv_circle :: "'img \<Rightarrow> int \<times> int \<Rightarrow> int \<Rightarrow> bgr \<Rightarrow> int \<Rightarrow> 'img"
  cv_putText :: "'img \<Rightarrow> label \<Rightarrow> int \<times> int \<Rightarrow> font \<Rightarrow> real \<Rightarrow> bgr \<Rightarrow> int \<Rightarrow> 'img"
  cv_getTextSize :: "label \<Rightarrow> font \<Rightarrow> real \<Rightarrow> int \<Rightarrow> int \<times> int"
  np_slice :: "'img \<Rightarrow> int \<Rightarrow> int \<Rightarrow> int \<Rightarrow> int \<Rightarrow> 'img"

subsection \<open>\<^verbatim>\<open>detect_all_pixels\<close>\<close>

text \<open>The dictionary that \<^verbatim>\<open>detect_all_pixels\<close> appends for a component.\<close>

definition new_detection :: "int \<Rightarrow> int \<Rightarrow> int \<Rightarrow> int \<Rightarrow> int \<Rightarrow> detection" where
  "new_detection x y w h a =
     \<lparr>coords = (x, y, x + w, y + h), confidence = 0.9, width = w, height = h,
      area = a, center = (x + w div 2, y + h div 2), pixel_count = a\<rparr>"

text \<open>
  One pass of the loop over the labels \<open>1 ..< num_labels\<close>: the state is
  \<^verbatim>\<open>detected_boxes\<close> and the log.
\<close>

definition detect_step ::
  "int \<Rightarrow> int \<Rightarrow> int \<Rightarrow> int \<Rightarrow> detection list \<times> log_event list
    \<Rightarrow> int \<times> int \<times> int \<times> int \<times> int \<Rightarrow> detection list \<times> log_event list" where
  "detect_step min_width max_width min_height max_height st row =
     (case st of (detected_boxes, lg) \<Rightarrow>
      case row of (x, y, w, h, a) \<Rightarrow>
        if \<not> (min_width \<le> w \<and> w \<le> max_width) \<or> \<not> (min_height \<le> h \<and> h \<le> max_height)
        then (detected_boxes,
              lg @ [Filtered_enemy w h min_width max_width min_height max_height])
        else (detected_boxes @ [new_detection x y w h a], lg))"

definition detect_all_pixels ::
  "'img cv2 \<Rightarrow> 'img \<Rightarrow> pattern \<Rightarrow> detection list \<times> log_event list" where
  "detect_all_pixels cv frame pattern =
     (case cv_components cv frame (color_lower_bgr pattern) (color_upper_bgr pattern) of
        Inl e \<Rightarrow> ([], [Error_in_pixel_detection e])
      | Inr stats \<Rightarrow>
          let min_width = fst (size_width pattern);
              max_width = snd (size_width pattern);
              min_height = fst (size_height pattern);
              max_height = snd (size_height pattern)
          in foldl (detect_step min_width max_width min_height max_height) ([], []) (tl stats))"

subsection \<open>\<^verbatim>\<open>cluster_similar_enemies\<close>\<close>

text \<open>
  \<^verbatim>\<open>max(xs, key=...)\<close> on a list with first element \<open>x\<close>: the first element whose key
  is not exceeded.
\<close>

definition max_by :: "('a \<Rightarrow> int) \<Rightarrow> 'a \<Rightarrow> 'a list \<Rightarrow> 'a" where
  "max_by key x xs = foldl (\<lambda>best y. if key y > key best then y else best) x xs"

definition coords_center :: "int \<times> int \<times> int \<times> int \<Rightarrow> int \<times> int" where
  "coords_center c = (case c of (x1, y1, x2, y2) \<Rightarrow> ((x1 + x2) div 2, (y1 + y2) div 2))"

definition center_distance :: "int \<times> int \<Rightarrow> int \<times> int \<Rightarrow> real" where
  "center_distance c d =
     sqrt (real_of_int ((fst c - fst d) ^ 2 + (snd c - snd d) ^ 2))"

text \<open>The inner loop: one pass for \<open>(j, other_det)\<close>; the state is the cluster and \<^verbatim>\<open>used_indices\<close>.\<close>

definition absorb_step ::
  "int \<times> int \<Rightarrow> detection list \<times> nat set \<Rightarrow> nat \<times> detection \<Rightarrow> detection list \<times> nat set" where
  "absorb_step seed_center st jd =
     (case st of (cluster, used_indices) \<Rightarrow>
      case jd of (j, other_det) \<Rightarrow>
        if j \<in> used_indices then (cluster, used_indices)
        else
          let other_center = coords_center (coords other_det);
              distance = center_distance seed_center other_center
          in if distance < 10 then (cluster @ [other_det], insert j used_indices)
             else (cluster, used_indices))"

text \<open>The outer loop: one pass for \<open>(i, det)\<close>; the state is \<^verbatim>\<open>clusters\<close> and \<^verbatim>\<open>used_indices\<close>.\<close>

definition cluster_step ::
  "detection list \<Rightarrow> detection list \<times> nat set \<Rightarrow> nat \<times> detection \<Rightarrow> detection list \<times> nat set" where
  "cluster_step detections st idet =
     (case st of (clusters, used_indices) \<Rightarrow>
      case idet of (i, det) \<Rightarrow>
        if i \<in> used_indices then (clusters, used_indices)
        else
          let used_indices = insert i used_indices;
              seed_center = coords_center (coords det);
              (cluster, used_indices) =
                 foldl (absorb_step seed_center) ([det], used_indices) (enumerate 0 detections)
          in case cluster of
               [] \<Rightarrow> (clusters, used_indices)
             | c # cs \<Rightarrow> (clusters @ [max_by area c cs], used_indices))"

definition cluster_similar_enemies :: "detection list \<Rightarrow> detection list" where
  "cluster_similar_enemies detections =
     (if detections = [] then []
      else fst (foldl (cluster_step detections) ([], {}) (enumerate 0 detections)))"

text \<open>
  The clustering as the specification words it: the first detection not yet assigned
  is the seed of a new cluster, which absorbs every other unassigned detection whose
  centre is at distance \<open>< 10\<close> of the seed's centre; the rest is clustered the same way.
\<close>

definition near_seed :: "detection \<Rightarrow> detection \<Rightarrow> bool" where
  "near_seed seed d =
     (center_distance (coords_center (coords seed)) (coords_center (coords d)) < 10)"


subsection \<open>\<^verbatim>\<open>detect_with_pxd_patterns\<close>\<close>

text \<open>
  \<^verbatim>\<open>check_pxd_control\<close> has run: \<open>pxd_patterns self\<close> is the list of patterns it left.
\<close>

definition detect_with_pxd_patterns ::
  "'img cv2 \<Rightarrow> f4vision \<Rightarrow> 'img \<Rightarrow> detection list \<times> log_event list" where
  "detect_with_pxd_patterns cv self frame =
     (let (all_detections, lg) =
            foldl (\<lambda>(all_detections, lg) pattern.
                     let (detections, l) = detect_all_pixels cv frame pattern
                     in (all_detections @ detections, lg @ l))
                  ([], []) (pxd_patterns self)
      in if all_detections \<noteq> []
         then
           let lg = lg @ [Found_raw_enemies (length all_detections)];
               clustered_detections = cluster_similar_enemies all_detections;
               lg = lg @ [Reduced_to_clusters (length all_detections)
                                              (length clustered_detections)]
           in (clustered_detections, lg)
         else (all_detections, lg))"

subsection \<open>Helpers of \<^verbatim>\<open>predict\<close>\<close>

text \<open>
  \<^verbatim>\<open>simple_detection_sort\<close>: sorted by area, largest first (a stable sort), then
  filtered by the confidence threshold.
\<close>

definition simple_detection_sort :: "f4vision \<Rightarrow> detection list \<Rightarrow> detection list" where
  "simple_detection_sort self detections =
     (if detections = [] then []
      else
        let sorted_detections = sort_key (\<lambda>d. - area d) detections;
            confidence_threshold = cached_colorConfidence self
        in filter (\<lambda>d. confidence d \<ge> confidence_threshold) sorted_detections)"

text \<open>
  \<^verbatim>\<open>apply_temporal_filtering\<close>: appends to \<^verbatim>\<open>detection_history\<close>, a deque of at most
  5 entries, and returns the detections as they are. The result is the pair of the
  detections and the new history.
\<close>

definition deque_append :: "nat \<Rightarrow> 'a list \<Rightarrow> 'a \<Rightarrow> 'a list" where
  "deque_append maxlen q x = (if length q \<ge> maxlen then drop (Suc (length q) - maxlen) q @ [x] else q @ [x])"

definition apply_temporal_filtering ::
  "detection list list \<Rightarrow> detection list \<Rightarrow> detection list \<times> detection list list" where
  "apply_temporal_filtering hist current_detections =
     (if current_detections = [] then ([], deque_append 5 hist [])
      else (current_detections, deque_append 5 hist current_detections))"

definition rectangleScaling :: "int \<Rightarrow> int \<Rightarrow> int \<Rightarrow> int \<Rightarrow> int \<times> int" where
  "rectangleScaling x1 y1 x2 y2 =
     (py_int (real_of_int (x1 + x2) / 2), py_int (real_of_int (y1 + y2) / 2))"

definition draw_white_highlight ::
  "'img cv2 \<Rightarrow> 'img \<Rightarrow> int \<times> int \<Rightarrow> int \<times> int \<Rightarrow> int \<Rightarrow> 'img" where
  "draw_white_highlight cv img pt1 pt2 thickness =
     cv_rectangle cv img pt1 pt2 (255, 255, 255) thickness"

definition draw_esp_detection ::
  "'img cv2 \<Rightarrow> f4vision \<Rightarrow> int \<Rightarrow> int \<Rightarrow> 'img \<Rightarrow> detection \<Rightarrow> 'img" where
  "draw_esp_detection cv self roi_offset_x roi_offset_y frame detection =
     (case coords detection of (x1, y1, x2, y2) \<Rightarrow>
        let screen_center = (960, 540);
            x1 = x1 + roi_offset_x;
            y1 = y1 + roi_offset_y;
            x2 = x2 + roi_offset_x;
            y2 = y2 + roi_offset_y;
            center_x = (x1 + x2) div 2;
            center_y = (y1 + y2) div 2;
            frame = (if cached_esp_lines_enabled self
                     then cv_line cv frame screen_center (center_x, center_y) (0, 255, 255) 2
                     else frame);
            frame = (if cached_esp_box_enabled self
                     then cv_rectangle cv frame (x1, y1) (x2, y2) (128, 128, 255) 2
                     else frame);
            frame = (if cached_show_distance_text self
                     then
                       let distance = center_distance (center_x, center_y) screen_center
                       in cv_putText cv frame (Text_px (py_int distance)) (center_x, y1 - 10)
                            FONT_HERSHEY_SIMPLEX 0.5 (255, 255, 255) 1
                     else frame)
        in frame)"

definition draw_esp_elements ::
  "'img cv2 \<Rightarrow> f4vision \<Rightarrow> 'img \<Rightarrow> detection list \<Rightarrow> int \<Rightarrow> int \<Rightarrow> 'img" where
  "draw_esp_elements cv self frame detections roi_offset_x roi_offset_y =
     (if \<not> cached_enemy_location_enabled self then frame
      else
        let frame = foldl (draw_esp_detection cv self roi_offset_x roi_offset_y) frame detections;
            frame = (if cached_crosshair_enabled self
                     then
                       let crosshair_size = 30;
                           crosshair_color = (0, 255, 0);
                           frame = cv_line cv frame (960 - crosshair_size, 540)
                                     (960 + crosshair_size, 540) crosshair_color 2
                       in cv_line cv frame (960, 540 - crosshair_size)
                            (960, 540 + crosshair_size) crosshair_color 2
                     else frame)
        in frame)"

text \<open>The detection rectangle \<^verbatim>\<open>X1, Y1, X2, Y2\<close> of \<^verbatim>\<open>predict\<close>.\<close>

definition detection_region :: "int \<Rightarrow> int \<Rightarrow> bool \<Rightarrow> real \<Rightarrow> int \<times> int \<times> int \<times> int" where
  "detection_region bbox_width bbox_height adaptiveBoundingBox button_7 =
     (let screen_center_x = 960; screen_center_y = 540;
          X1 = max 0 (screen_center_x - bbox_width div 2);
          Y1 = max 0 (screen_center_y - bbox_height div 2);
          X2 = min 1920 (screen_center_x + bbox_width div 2);
          Y2 = min 1080 (screen_center_y + bbox_height div 2)
      in if adaptiveBoundingBox \<and> button_7 > 0
         then
           let adaptive_multiplier = 1.5;
               adaptive_width = py_int (real_of_int bbox_width * adaptive_multiplier);
               adaptive_height = py_int (real_of_int bbox_height * adaptive_multiplier);
               X1 = max 0 (screen_center_x - adaptive_width div 2);
               Y1 = max 0 (screen_center_y - adaptive_height div 2);
               X2 = min 1920 (screen_center_x + adaptive_width div 2);
               Y2 = min 1080 (screen_center_y + adaptive_height div 2)
           in (X1, Y1, X2, Y2)
         else (X1, Y1, X2, Y2))"

text \<open>The manual override of \<^verbatim>\<open>predict\<close>, applied to the lock vector.\<close>

definition manual_override :: "bool \<Rightarrow> real \<Rightarrow> real \<Rightarrow> real \<times> real \<Rightarrow> real \<times> real" where
  "manual_override manualOveride button_9 manualOverridePercentage r =
     (case r of (rx, ry) \<Rightarrow>
        if manualOveride \<and> button_9 > 0
        then
          let reduction_factor = (100 - manualOverridePercentage) / 100
          in (rx * reduction_factor, ry * reduction_factor)
        else (rx, ry))"

text \<open>The lock visuals of \<^verbatim>\<open>predict\<close>, drawn once the vector is computed.\<close>

definition draw_lock_visuals :: "'img cv2 \<Rightarrow> 'img \<Rightarrow> real \<Rightarrow> int \<Rightarrow> int \<Rightarrow> 'img" where
  "draw_lock_visuals cv final button_7 target_center_x target_center_y =
     (let crosshair_center_x = 960; crosshair_center_y = 540
      in if button_7 > 0
         then
           let final = cv_circle cv final (crosshair_center_x, crosshair_center_y) 8 (0, 255, 0) 2;
               final = cv_line cv final (crosshair_center_x, crosshair_center_y)
                         (target_center_x, target_center_y) (0, 255, 0) 2;
               distance = center_distance (target_center_x, target_center_y)
                            (crosshair_center_x, crosshair_center_y);
               (lock_status, lock_color) =
                  (if distance < 3 then (''PERFECT LOCK'', (0, 255, 0))
                   else (''LOCKING'', (0, 255, 255)));
               final = cv_putText cv final (Text lock_status)
                         (crosshair_center_x - 50, crosshair_center_y - 20)
                         FONT_HERSHEY_SIMPLEX 0.6 lock_color 2
           in cv_putText cv final (Text_Dist_px (py_int distance))
                (crosshair_center_x - 40, crosshair_center_y - 40)
                FONT_HERSHEY_SIMPLEX 0.5 (255, 255, 255) 1
         else cv_putText cv final (Text ''TARGET DETECTED'')
                (crosshair_center_x - 60, crosshair_center_y - 20)
                FONT_HERSHEY_SIMPLEX 0.6 (0, 0, 255) 2)"

subsection \<open>\<^verbatim>\<open>predict\<close>\<close>

text \<open>
  The local variables of \<^verbatim>\<open>predict\<close> when it returns; the method returns
  \<open>(final, rx, ry)\<close>. \<open>img0\<close> is the image handed to the detector, \<open>lock_calls\<close> lists the
  arguments of every call of \<^verbatim>\<open>perfect_target_lock\<close>, \<open>history\<close> is
  \<^verbatim>\<open>self.detection_history\<close> and \<open>logged\<close> what the cycle has logged.
\<close>

record 'img predict_locals =
  roi :: "int \<times> int \<times> int \<times> int"
  img0 :: 'img
  detected_objects :: "detection list"
  best_target :: "detection option"
  lock_calls :: "(real \<times> real \<times> real \<times> real) list"
  final :: 'img
  rx :: real
  ry :: real
  history :: "detection list list"
  logged :: "log_event list"

text \<open>
  \<^verbatim>\<open>final = frame\<close> binds a second name to the caller's array and
  \<^verbatim>\<open>img0 = frame[Y1:Y2, X1:X2, :]\<close> is a numpy view of it: the three names share one
  pixel buffer. \<^verbatim>\<open>cv2.rectangle(final, ...)\<close> runs before the detector reads \<^verbatim>\<open>img0\<close>,
  so the detector sees the slice of the buffer with the rectangle drawn. The model
  threads the buffer as \<open>final\<close> and takes the slice where the detector reads it.
\<close>

text \<open>
  The centre of the selected target in frame coordinates, with the aim offset applied.
\<close>

definition target_center :: "f4vision \<Rightarrow> int \<Rightarrow> int \<Rightarrow> detection \<Rightarrow> int \<times> int" where
  "target_center self X1 Y1 target =
     (case coords target of (x1, y1, x2, y2) \<Rightarrow>
        let (target_center_x, target_center_y) =
               rectangleScaling (x1 + X1) (y1 + Y1) (x2 + X1) (y2 + Y1);
            target_center_x = target_center_x + cached_aimOffsetX self;
            target_center_y = target_center_y + cached_aimOffsetY self
        in (target_center_x, target_center_y))"

text \<open>
  The body of \<^verbatim>\<open>if best_target:\<close>: the drawn image, the vector \<open>(rx, ry)\<close> and the
  arguments of the call of \<^verbatim>\<open>perfect_target_lock\<close>.
\<close>

definition aim_at_target ::
  "'img cv2 \<Rightarrow> f4vision \<Rightarrow> int \<Rightarrow> int \<Rightarrow> 'img \<Rightarrow> real \<Rightarrow> real \<Rightarrow> detection
    \<Rightarrow> 'img \<times> (real \<times> real) \<times> (real \<times> real \<times> real \<times> real)" where
  "aim_at_target cv self X1 Y1 img button_7 button_9 target =
     (let (target_center_x, target_center_y) = target_center self X1 Y1 target;
          img = cv_circle cv img (target_center_x, target_center_y) 8 (0, 0, 255) 2;
          r = perfect_target_lock (real_of_int target_center_x) (real_of_int target_center_y)
                (cached_speedX self) (cached_speedY self);
          r = manual_override (cached_manualOveride self) button_9
                (cached_manualOverridePercentage self) r;
          img = draw_lock_visuals cv img button_7 target_center_x target_center_y
      in (img, r,
          (real_of_int target_center_x, real_of_int target_center_y,
           cached_speedX self, cached_speedY self)))"

definition predict ::
  "'img cv2 \<Rightarrow> f4vision \<Rightarrow> 'img \<Rightarrow> real \<Rightarrow> real \<Rightarrow> real \<Rightarrow> 'img predict_locals" where
  "predict cv self frame button_5 button_7 button_9 =
     (let bbox_width = cached_bbox_width self;
          bbox_height = cached_bbox_height self;
          showBoundingBox = cached_showBoundingBox self;
          adaptiveBoundingBox = cached_adaptiveBoundingBox self;
          final = frame;
          (X1, Y1, X2, Y2) = detection_region bbox_width bbox_height adaptiveBoundingBox button_7;
          final = (if showBoundingBox
                   then cv_rectangle cv final (X1, Y1) (X2, Y2) (255, 255, 255) 1
                   else final);
          img0 = (if Y2 > Y1 \<and> X2 > X1 then np_slice cv final Y1 Y2 X1 X2 else final);
          (detected_objects, lg) = detect_with_pxd_patterns cv self img0;
          (all_targets, hist) = apply_temporal_filtering (detection_history self) detected_objects;
          best_target = (case all_targets of [] \<Rightarrow> None | t # ts \<Rightarrow> Some (max_by area t ts));
          final = foldl (\<lambda>final target.
                           case coords target of (x1, y1, x2, y2) \<Rightarrow>
                             draw_white_highlight cv final (x1 + X1, y1 + Y1) (x2 + X1, y2 + Y1) 1)
                        final all_targets;
          final = (if cached_enemy_location_enabled self \<and> all_targets \<noteq> []
                   then draw_esp_elements cv self final all_targets X1 Y1
                   else final);
          (final, r, calls) =
             (case best_target of
                None \<Rightarrow> (final, (0, 0), [])
              | Some target \<Rightarrow>
                  (case aim_at_target cv self X1 Y1 final button_7 button_9 target of
                     (img, r, call) \<Rightarrow> (img, r, [call])))
      in \<lparr>roi = (X1, Y1, X2, Y2), img0 = img0, detected_objects = detected_objects,
          best_target = best_target, lock_calls = calls, final = final,
          rx = fst r, ry = snd r, history = hist, logged = lg\<rparr>)"

subsection \<open>\<^verbatim>\<open>process\<close>\<close>

text \<open>
  The three button readings and the read of \<^verbatim>\<open>aimActivationButton\<close> are inputs. The
  result is the record of \<^verbatim>\<open>predict\<close>, the bytes (or the exception of \<^verbatim>\<open>to_bytes\<close>
  with \<^verbatim>\<open>gcvdata\<close> as it is then) and the log of the cycle.
\<close>

definition process ::
  "'img cv2 \<Rightarrow> f4vision \<Rightarrow> py_error + string option \<Rightarrow> 'img \<Rightarrow> byte list \<Rightarrow> real \<Rightarrow> real \<Rightarrow> real
    \<Rightarrow> 'img predict_locals \<times> ((py_error \<times> byte list) + byte list) \<times> log_event list" where
  "process cv self settings_read frame gcvdata button_5 button_7 button_9 =
     (let watermark_text = Text ''F4Vision Enhanced'';
          text_size = cv_getTextSize cv watermark_text FONT_HERSHEY_PLAIN 1 1;
          text_x = (1920 - fst text_size) div 2;
          text_y = snd text_size + 10;
          frame = cv_putText cv frame watermark_text (text_x, text_y) FONT_HERSHEY_PLAIN 1 (0, 0, 0) 1;
          p = predict cv self frame button_5 button_7 button_9;
          rightStickX = rx p;
          rightStickY = ry p
      in case to_bytes_big (py_int (rightStickX * 65536)) 4 True of
           Inl e \<Rightarrow> (p, Inl (e, gcvdata), logged p)
         | Inr bx \<Rightarrow>
             let gcvdata = gcvdata @ bx
             in case to_bytes_big (py_int (rightStickY * 65536)) 4 True of
                  Inl e \<Rightarrow> (p, Inl (e, gcvdata), logged p)
                | Inr by \<Rightarrow>
                    let gcvdata = gcvdata @ by;
                        (aim_button_id, lg) = get_aim_button_id settings_read
                    in case to_bytes_big aim_button_id 2 False of
                         Inl e \<Rightarrow> (p, Inl (e, gcvdata), logged p @ lg)
                       | Inr bb \<Rightarrow>
                           (p, Inr (gcvdata @ bb),
                            logged p @ lg @ [Gcv_data_debug aim_button_id]))"

subsection \<open>The image library on pixel grids\<close>

text \<open>
  Modelled from the spec: the code of OpenCV and numpy is not part of the repository.
  Section 4.2 of the specification describes the detector's library calls: a pixel is
  included when each channel lies in the inclusive range \<open>[color_low, color_high]\<close>;
  the included pixels are labelled by 8-connectivity; each component has its bounding
  rectangle and its pixel count. An image is a grid of BGR pixels, \<open>img_pixel img r c\<close>
  the pixel of row \<open>r\<close> and column \<open>c\<close>. A slice is numpy's basic slicing; a rectangle
  of thickness 1 paints the outline between its two corners.
\<close>

record image =
  img_rows :: nat
  img_cols :: nat
  img_pixel :: "nat \<Rightarrow> nat \<Rightarrow> bgr"

definition slice_index :: "int \<Rightarrow> nat \<Rightarrow> nat" where
  "slice_index i n = (if i < 0 then nat (max 0 (int n + i)) else min (nat i) n)"

definition grid_slice :: "image \<Rightarrow> int \<Rightarrow> int \<Rightarrow> int \<Rightarrow> int \<Rightarrow> image" where
  "grid_slice img y1 y2 x1 x2 =
     (let r1 = slice_index y1 (img_rows img); r2 = slice_index y2 (img_rows img);
          c1 = slice_index x1 (img_cols img); c2 = slice_index x2 (img_cols img)
      in \<lparr>img_rows = r2 - r1, img_cols = c2 - c1,
          img_pixel = (\<lambda>r c. img_pixel img (r1 + r) (c1 + c))\<rparr>)"

definition on_outline :: "int \<times> int \<Rightarrow> int \<times> int \<Rightarrow> int \<Rightarrow> int \<Rightarrow> bool" where
  "on_outline pt1 pt2 x y =
     (let xa = min (fst pt1) (fst pt2); xb = max (fst pt1) (fst pt2);
          ya = min (snd pt1) (snd pt2); yb = max (snd pt1) (snd pt2)
      in xa \<le> x \<and> x \<le> xb \<and> ya \<le> y \<and> y \<le> yb \<and> (x = xa \<or> x = xb \<or> y = ya \<or> y = yb))"

definition grid_outline :: "image \<Rightarrow> int \<times> int \<Rightarrow> int \<times> int \<Rightarrow> bgr \<Rightarrow> image" where
  "grid_outline img pt1 pt2 color =
     img\<lparr>img_pixel := (\<lambda>r c. if on_outline pt1 pt2 (int c) (int r) then color
                               else img_pixel img r c)\<rparr>"

definition in_range :: "bgr \<Rightarrow> bgr \<Rightarrow> bgr \<Rightarrow> bool" where
  "in_range p lo hi =
     (case p of (b, g, r) \<Rightarrow> case lo of (lb, lg, lr) \<Rightarrow> case hi of (hb, hg, hr) \<Rightarrow>
        lb \<le> b \<and> b \<le> hb \<and> lg \<le> g \<and> g \<le> hg \<and> lr \<le> r \<and> r \<le> hr)"

definition mask_pixels :: "image \<Rightarrow> bgr \<Rightarrow> bgr \<Rightarrow> (int \<times> int) list" where
  "mask_pixels img lo hi =
     concat (map (\<lambda>r. map (\<lambda>c. (int c, int r))
                          (filter (\<lambda>c. in_range (img_pixel img r c) lo hi) [0..<img_cols img]))
                 [0..<img_rows img])"

definition adjacent8 :: "int \<times> int \<Rightarrow> int \<times> int \<Rightarrow> bool" where
  "adjacent8 p q = (\<bar>fst p - fst q\<bar> \<le> 1 \<and> \<bar>snd p - snd q\<bar> \<le> 1)"

function grow :: "(int \<times> int) list \<Rightarrow> (int \<times> int) list \<Rightarrow> (int \<times> int) list" where
  "grow blob rest =
     (if filter (\<lambda>q. list_ex (\<lambda>p. adjacent8 p q) blob) rest = [] then blob
      else grow (blob @ filter (\<lambda>q. list_ex (\<lambda>p. adjacent8 p q) blob) rest)
                (filter (\<lambda>q. \<not> list_ex (\<lambda>p. adjacent8 p q) blob) rest))"
  by pat_completeness auto
termination
proof (relation "measure (\<lambda>(blob, rest). length rest)")
  show "wf (measure (\<lambda>(blob, rest). length rest))" by simp
next
  fix blob rest :: "(int \<times> int) list"
  assume ne: "filter (\<lambda>q. list_ex (\<lambda>p. adjacent8 p q) blob) rest \<noteq> []"
  have "length (filter (\<lambda>q. list_ex (\<lambda>p. adjacent8 p q) blob) rest)
        + length (filter (\<lambda>q. \<not> list_ex (\<lambda>p. adjacent8 p q) blob) rest) = length rest"
    by (rule sum_length_filter_compl)
  moreover have "0 < length (filter (\<lambda>q. list_ex (\<lambda>p. adjacent8 p q) blob) rest)"
    using ne by simp
  ultimately have "length (filter (\<lambda>q. \<not> list_ex (\<lambda>p. adjacent8 p q) blob) rest) < length rest"
    by linarith
  then show "((blob @ filter (\<lambda>q. list_ex (\<lambda>p. adjacent8 p q) blob) rest,
           filter (\<lambda>q. \<not> list_ex (\<lambda>p. adjacent8 p q) blob) rest), (blob, rest))
          \<in> measure (\<lambda>(blob, rest). length rest)"
    by simp
qed

declare grow.simps [simp del]

function components :: "(int \<times> int) list \<Rightarrow> (int \<times> int) list list" where
  "components [] = []"
| "components (p # ps) =
     grow [p] ps # components (filter (\<lambda>q. q \<notin> set (grow [p] ps)) ps)"
  by pat_completeness auto
termination
  by (relation "measure length") (auto simp: less_Suc_eq_le)

definition component_stats :: "(int \<times> int) list \<Rightarrow> int \<times> int \<times> int \<times> int \<times> int" where
  "component_stats blob =
     (let xs = map fst blob; ys = map snd blob;
          left = fold min xs (hd xs); top = fold min ys (hd ys);
          right = fold max xs (hd xs); bottom = fold max ys (hd ys)
      in (left, top, right - left + 1, bottom - top + 1, int (length blob)))"

definition grid_components ::
  "image \<Rightarrow> bgr \<Rightarrow> bgr \<Rightarrow> py_error + (int \<times> int \<times> int \<times> int \<times> int) list" where
  "grid_components img lo hi =
     (let fg = mask_pixels img lo hi
      in Inr ((0, 0, int (img_cols img), int (img_rows img),
               int (img_rows img * img_cols img) - int (length fg))
              # map component_stats (components fg)))"

text \<open>
  A library whose component analysis, slicing and rectangles of thickness 1 are the
  ones above; every other drawing operation is that of \<open>cv\<close>.
\<close>

definition on_grid :: "image cv2 \<Rightarrow> image cv2" where
  "on_grid cv =
     cv\<lparr>cv_components := grid_components,
        cv_rectangle := (\<lambda>img pt1 pt2 color thickness.
                           if thickness = 1 then grid_outline img pt1 pt2 color
                           else cv_rectangle cv img pt1 pt2 color thickness),
        np_slice := grid_slice\<rparr>"

subsection \<open>Initial state and sample inputs\<close>

text \<open>The fields as \<^verbatim>\<open>__init__\<close> sets them.\<close>

definition initial_state :: f4vision where
  "initial_state =
     \<lparr>cached_bbox_width = 720, cached_bbox_height = 480, cached_showBoundingBox = True,
      cached_adaptiveBoundingBox = False, cached_manualOveride = True,
      cached_speedX = 9, cached_speedY = 9, cached_aimSmoothing = False,
      cached_colorConfidence = 0.21, cached_esp_lines_enabled = True,
      cached_esp_box_enabled = True, cached_crosshair_enabled = True,
      cached_show_distance_text = True, cached_enemy_location_enabled = True,
      cached_aimOffsetX = 0, cached_aimOffsetY = 0, cached_manualOverridePercentage = 50,
      detection_history = [], pxd_patterns = []\<rparr>"

text \<open>
  The pattern that \<^verbatim>\<open>load_single_pxd_file\<close> stores: the colour range and the size
  range come from the cached values of \<^verbatim>\<open>__init__\<close>, whatever the file holds.
\<close>

definition loaded_pattern :: "string \<Rightarrow> pattern" where
  "loaded_pattern name =
     \<lparr>color_lower_bgr = (61, 0, 102), color_upper_bgr = (255, 45, 254),
      size_width = (5, 12), size_height = (5, 12), source_file = name\<rparr>"

text \<open>
  A black frame of 1920 x 1080 with one blob of 5 x 5 pixels of the colour
  \<open>(200, 20, 200)\<close>, its top left corner at column 954, row 534.
\<close>

definition blob_frame :: image where
  "blob_frame =
     \<lparr>img_rows = 1080, img_cols = 1920,
      img_pixel = (\<lambda>r c. if 534 \<le> r \<and> r \<le> 538 \<and> 954 \<le> c \<and> c \<le> 958
                          then (200, 20, 200) else (0, 0, 0))\<rparr>"

text \<open>The state with a 12 x 12 detection box and one pattern loaded.\<close>

definition small_box_state :: f4vision where
  "small_box_state =
     initial_state\<lparr>cached_bbox_width := 12, cached_bbox_height := 12,
                   pxd_patterns := [loaded_pattern ''enemy.pxd'']\<rparr>"

section \<open>Properties\<close>

subsection \<open>Bytes\<close>

lemma length_be_bytes: "length (be_bytes k n) = k"
  by (induction k) auto

lemma foldl_be_bytes:
  "foldl (\<lambda>acc b. acc * 256 + uint b) a (be_bytes k n) = a * 256 ^ k + n mod 256 ^ k"
proof (induction k arbitrary: a)
  case 0
  then show ?case by simp
next
  case (Suc k)
  have "uint (word_of_int (n div 256 ^ k) :: byte) = (n div 256 ^ k) mod 256"
    by (simp add: uint_word_of_int)
  moreover have "n mod 256 ^ Suc k = 256 ^ k * ((n div 256 ^ k) mod 256) + n mod 256 ^ k"
    using zmod_zmult2_eq [of 256 n "256 ^ k"] by (simp add: mult.commute)
  ultimately show ?case using Suc.IH by (simp add: algebra_simps)
qed

lemma from_bytes_be_bytes_signed:
  assumes lo: "- (2 ^ (8 * len - 1)) \<le> n" and hi: "n < 2 ^ (8 * len - 1)" and pos: "0 < len"
  shows "from_bytes_big (be_bytes len n) True = n"
proof -
  have p: "(2::int) ^ (8 * len) = 2 * 2 ^ (8 * len - 1)"
  proof -
    have "8 * len = Suc (8 * len - 1)" using pos by simp
    then have "(2::int) ^ (8 * len) = 2 ^ Suc (8 * len - 1)" by simp
    then show ?thesis by simp
  qed
  have e: "(256::int) ^ len = 2 ^ (8 * len)"
    by (simp add: power_mult)
  have u: "foldl (\<lambda>acc b. acc * 256 + uint b) 0 (be_bytes len n) = n mod 2 ^ (8 * len)"
    by (simp add: foldl_be_bytes e)
  show ?thesis
  proof (cases "0 \<le> n")
    case True
    then have "n mod 2 ^ (8 * len) = n" using hi p by simp
    then show ?thesis using u hi by (simp add: from_bytes_big_def Let_def length_be_bytes)
  next
    case False
    then have "n mod 2 ^ (8 * len) = n + 2 ^ (8 * len)"
      using lo p by (smt (verit) mod_add_self2 mod_pos_pos_trivial)
    then show ?thesis using u False lo p
      by (simp add: from_bytes_big_def Let_def length_be_bytes)
  qed
qed

lemma from_bytes_be_bytes_unsigned:
  assumes "0 \<le> n" "n < 2 ^ (8 * len)"
  shows "from_bytes_big (be_bytes len n) False = n"
proof -
  have "(256::int) ^ len = 2 ^ (8 * len)"
    by (simp add: power_mult)
  then show ?thesis using assms
    by (simp add: from_bytes_big_def foldl_be_bytes)
qed

lemma to_bytes_i32:
  "to_bytes_big n 4 True = (if in_i32 n then Inr (be_bytes 4 n) else Inl OverflowError)"
  by (simp add: to_bytes_big_def in_i32_def)

lemma from_bytes_i32: "in_i32 n \<Longrightarrow> from_bytes_big (be_bytes 4 n) True = n"
  using from_bytes_be_bytes_signed [of 4 n] by (simp add: in_i32_def)

lemma py_int_error:
  "\<bar>real_of_int (py_int x) - x\<bar> < 1"
  unfolding py_int_def by (simp; linarith)

lemma fixed_point_error:
  "\<bar>real_of_int (py_int (x * 65536)) / 65536 - x\<bar> < 1 / 65536"
  using py_int_error [of "x * 65536"] by linarith

lemma aim_button_id_range:
  "fst (get_aim_button_id r) \<in> {5, 6, 7, 8}"
  by (auto simp: get_aim_button_id_def button_mapping_def Let_def
      split: sum.splits option.splits if_splits)

lemma sqrt_less_2_iff: "sqrt x < 2 \<longleftrightarrow> x < 4"
  using real_sqrt_less_iff [of x 4] by simp

lemma be_bytes_4:
  "be_bytes 4 n = [word_of_int (n div 16777216), word_of_int (n div 65536),
                   word_of_int (n div 256), word_of_int n]"
  by (simp add: eval_nat_numeral)

lemma be_bytes_2: "be_bytes 2 n = [word_of_int (n div 256), word_of_int n]"
  by (simp add: eval_nat_numeral)

lemma to_bytes_u16:
  "to_bytes_big n 2 False = (if 0 \<le> n \<and> n < 65536 then Inr (be_bytes 2 n) else Inl OverflowError)"
  by (simp add: to_bytes_big_def)

subsection \<open>The output encoder\<close>

lemma extend_gcvdata_cases:
  "extend_gcvdata g mx my b =
     (if \<not> in_i32 (py_int (mx * 65536)) then Inl (OverflowError, g)
      else if \<not> in_i32 (py_int (my * 65536))
           then Inl (OverflowError, g @ be_bytes 4 (py_int (mx * 65536)))
      else if \<not> (0 \<le> b \<and> b < 65536)
           then Inl (OverflowError,
                     g @ be_bytes 4 (py_int (mx * 65536)) @ be_bytes 4 (py_int (my * 65536)))
      else Inr (g @ be_bytes 4 (py_int (mx * 65536)) @ be_bytes 4 (py_int (my * 65536))
                  @ be_bytes 2 b))"
  by (simp add: extend_gcvdata_def to_bytes_i32 to_bytes_u16 Let_def)

text \<open>The bytes of \<^verbatim>\<open>process\<close> are those of its three \<^verbatim>\<open>extend\<close> statements.\<close>

lemma process_bytes:
  "fst (snd (process cv self settings_read frame gcvdata b5 b7 b9)) =
     extend_gcvdata gcvdata
       (rx (fst (process cv self settings_read frame gcvdata b5 b7 b9)))
       (ry (fst (process cv self settings_read frame gcvdata b5 b7 b9)))
       (fst (get_aim_button_id settings_read))"
  by (simp add: process_def extend_gcvdata_def Let_def case_prod_beta split: sum.splits)

lemma from_bytes_u16: "0 \<le> n \<Longrightarrow> n < 65536 \<Longrightarrow> from_bytes_big (be_bytes 2 n) False = n"
  using from_bytes_be_bytes_unsigned [of n 2] by simp

text \<open>
  C1 (as amended). When the fixed-point values \<open>int(move_x * 65536)\<close> and
  \<open>int(move_y * 65536)\<close>, truncated towards zero, fit in 32 signed bits, the encoder
  appends exactly 10 bytes, big-endian: bytes 0-3 hold the first value, bytes 4-7 the
  second, bytes 8-9 the button identifier. Decoding recovers \<open>move_x\<close> and \<open>move_y\<close> to
  within \<open>1/65536\<close> and the identifier exactly.
\<close>

theorem C1_output_encoder:
  assumes x: "in_i32 (py_int (move_x * 65536))" and y: "in_i32 (py_int (move_y * 65536))"
  shows "\<exists>payload.
           extend_gcvdata gcvdata move_x move_y (fst (get_aim_button_id settings_read))
             = Inr (gcvdata @ payload)
         \<and> length payload = 10
         \<and> payload = be_bytes 4 (py_int (move_x * 65536)) @ be_bytes 4 (py_int (move_y * 65536))
                       @ be_bytes 2 (fst (get_aim_button_id settings_read))
         \<and> from_bytes_big (take 4 payload) True = py_int (move_x * 65536)
         \<and> from_bytes_big (take 4 (drop 4 payload)) True = py_int (move_y * 65536)
         \<and> from_bytes_big (drop 8 payload) False = fst (get_aim_button_id settings_read)
         \<and> \<bar>real_of_int (from_bytes_big (take 4 payload) True) / 65536 - move_x\<bar> < 1 / 65536
         \<and> \<bar>real_of_int (from_bytes_big (take 4 (drop 4 payload)) True) / 65536 - move_y\<bar>
              < 1 / 65536"
proof -
  let ?X = "py_int (move_x * 65536)" and ?Y = "py_int (move_y * 65536)"
  let ?b = "fst (get_aim_button_id settings_read)"
  let ?p = "be_bytes 4 ?X @ be_bytes 4 ?Y @ be_bytes 2 ?b"
  have b: "0 \<le> ?b" "?b < 65536"
    using aim_button_id_range [of settings_read] by auto
  have enc: "extend_gcvdata gcvdata move_x move_y ?b = Inr (gcvdata @ ?p)"
    using x y b by (simp add: extend_gcvdata_cases)
  have len: "length ?p = 10" by (simp add: length_be_bytes)
  have t1: "take 4 ?p = be_bytes 4 ?X" by (simp add: length_be_bytes)
  have t2: "take 4 (drop 4 ?p) = be_bytes 4 ?Y" by (simp add: length_be_bytes)
  have t3: "drop 8 ?p = be_bytes 2 ?b" by (simp add: length_be_bytes)
  have dx: "from_bytes_big (take 4 ?p) True = ?X" unfolding t1 using x by (rule from_bytes_i32)
  have dy: "from_bytes_big (take 4 (drop 4 ?p)) True = ?Y"
    unfolding t2 using y by (rule from_bytes_i32)
  have db: "from_bytes_big (drop 8 ?p) False = ?b" unfolding t3 using b by (rule from_bytes_u16)
  have ex: "\<bar>real_of_int (from_bytes_big (take 4 ?p) True) / 65536 - move_x\<bar> < 1 / 65536"
    unfolding dx by (rule fixed_point_error)
  have ey: "\<bar>real_of_int (from_bytes_big (take 4 (drop 4 ?p)) True) / 65536 - move_y\<bar> < 1 / 65536"
    unfolding dy by (rule fixed_point_error)
  show ?thesis
    using enc len dx dy db ex ey by blast
qed

lemmas enc_eval = extend_gcvdata_cases in_i32_def py_int_def be_bytes_4 be_bytes_2
  get_aim_button_id_def button_mapping_def Let_def

theorem C1_output_encoder_witness:
  "in_i32 (py_int (72 / 100 * 65536)) \<and> in_i32 (py_int (- (1 / 2) * 65536))
   \<and> extend_gcvdata [] (72 / 100) (- (1 / 2)) (fst (get_aim_button_id (Inr (Some ''R2''))))
       = Inr [0, 0, 184, 81, 255, 255, 128, 0, 0, 8]"
  using C1_output_encoder [of "72 / 100" "- (1 / 2)" "[]" "Inr (Some ''R2'')"]
  by (simp add: enc_eval)

text \<open>
  The claim as first stated asks for \<open>round(move_x * 65536)\<close> in every cycle. At
  \<open>move_x = 0.72\<close> (a target 4 pixels right of the centre at speed 9) the bytes hold
  47185, and the rounded value is 47186; at \<open>move_x = 40000\<close> no payload is produced.
\<close>

theorem C1_round_counterexample:
  "extend_gcvdata [] (72 / 100) 0 7 = Inr [0, 0, 184, 81, 0, 0, 0, 0, 0, 7]
   \<and> from_bytes_big (take 4 [0, 0, 184, 81, 0, 0, 0, 0, 0, 7]) True = 47185
   \<and> round (72 / 100 * 65536 :: real) = 47186
   \<and> extend_gcvdata [] 40000 0 7 = Inl (OverflowError, [])"
  by (simp add: enc_eval from_bytes_big_def round_def)

text \<open>
  C2 (as amended). The encoder does not clamp. When the fixed-point value of \<open>move_x\<close>
  does not fit in 32 signed bits, \<^verbatim>\<open>to_bytes\<close> raises \<^verbatim>\<open>OverflowError\<close> and nothing has
  been appended; when that of \<open>move_x\<close> fits and that of \<open>move_y\<close> does not, the
  exception comes after the 4 bytes of \<open>move_x\<close> have been appended. A 10-byte payload is
  emitted when both fit.
\<close>

theorem C2_encoder_overflow:
  "(\<not> in_i32 (py_int (move_x * 65536)) \<longrightarrow>
      extend_gcvdata gcvdata move_x move_y (fst (get_aim_button_id settings_read))
        = Inl (OverflowError, gcvdata))
   \<and> (in_i32 (py_int (move_x * 65536)) \<and> \<not> in_i32 (py_int (move_y * 65536)) \<longrightarrow>
      extend_gcvdata gcvdata move_x move_y (fst (get_aim_button_id settings_read))
        = Inl (OverflowError, gcvdata @ be_bytes 4 (py_int (move_x * 65536))))
   \<and> (in_i32 (py_int (move_x * 65536)) \<and> in_i32 (py_int (move_y * 65536)) \<longrightarrow>
      (\<exists>payload. length payload = 10 \<and>
         extend_gcvdata gcvdata move_x move_y (fst (get_aim_button_id settings_read))
           = Inr (gcvdata @ payload)))"
proof -
  have b: "0 \<le> fst (get_aim_button_id settings_read)" "fst (get_aim_button_id settings_read) < 65536"
    using aim_button_id_range [of settings_read] by auto
  show ?thesis
  proof (intro conjI impI)
    assume "in_i32 (py_int (move_x * 65536)) \<and> in_i32 (py_int (move_y * 65536))"
    then have "extend_gcvdata gcvdata move_x move_y (fst (get_aim_button_id settings_read))
        = Inr (gcvdata @ (be_bytes 4 (py_int (move_x * 65536)) @ be_bytes 4 (py_int (move_y * 65536))
                  @ be_bytes 2 (fst (get_aim_button_id settings_read))))"
      using b by (simp add: extend_gcvdata_cases)
    moreover have "length (be_bytes 4 (py_int (move_x * 65536)) @ be_bytes 4 (py_int (move_y * 65536))
                  @ be_bytes 2 (fst (get_aim_button_id settings_read))) = 10"
      by (simp add: length_be_bytes)
    ultimately show "\<exists>payload. length payload = 10 \<and>
         extend_gcvdata gcvdata move_x move_y (fst (get_aim_button_id settings_read))
           = Inr (gcvdata @ payload)"
      by blast
  qed (simp_all add: extend_gcvdata_cases)
qed

theorem C2_encoder_overflow_witness:
  "\<not> in_i32 (py_int (40000 * 65536))
   \<and> extend_gcvdata [1] 40000 0 (fst (get_aim_button_id (Inr None))) = Inl (OverflowError, [1])
   \<and> in_i32 (py_int (1 * 65536)) \<and> \<not> in_i32 (py_int (- 40000 * 65536))
   \<and> extend_gcvdata [1] 1 (- 40000) (fst (get_aim_button_id (Inr None)))
        = Inl (OverflowError, [1, 0, 1, 0, 0])
   \<and> extend_gcvdata [1] 1 (- 1) (fst (get_aim_button_id (Inr None)))
        = Inr [1, 0, 1, 0, 0, 255, 255, 0, 0, 0, 7]"
  using C2_encoder_overflow [of 40000 "[1]" 0 "Inr None"]
    C2_encoder_overflow [of 1 "[1]" "- 40000" "Inr None"]
    C2_encoder_overflow [of 1 "[1]" "- 1" "Inr None"]
  by (simp add: enc_eval)

text \<open>
  The claim as first stated has a 10-byte payload for every input: at \<open>move_x = 32768\<close>
  the cycle ends with \<^verbatim>\<open>OverflowError\<close>.
\<close>

theorem C2_overflow_counterexample:
  "extend_gcvdata [] 32768 0 7 = Inl (OverflowError, [])
   \<and> extend_gcvdata [] 0 (- 32769) 7 = Inl (OverflowError, [0, 0, 0, 0])"
  by (simp add: enc_eval)

subsection \<open>The lock vector\<close>



subsection \<open>Clustering\<close>

lemma sqrt_less_10_iff: "sqrt x < 10 \<longleftrightarrow> x < 100"
  using real_sqrt_less_iff [of x 100] by simp


lemma max_by_Nil: "max_by key x [] = x"
  by (simp add: max_by_def)













lemmas cl_eval = cluster_similar_enemies_def cluster_step_def absorb_step_def max_by_def
  coords_center_def center_distance_def new_detection_def sqrt_less_10_iff Let_def near_seed_def


subsection \<open>The blob detector\<close>

lemma detect_fold:
  "foldl (detect_step mw Mw mh Mh) (boxes, lg) rows =
     (boxes @ map (\<lambda>(x, y, w, h, a). new_detection x y w h a)
                (filter (\<lambda>(x, y, w, h, a). mw \<le> w \<and> w \<le> Mw \<and> mh \<le> h \<and> h \<le> Mh) rows),
      lg @ map (\<lambda>(x, y, w, h, a). Filtered_enemy w h mw Mw mh Mh)
             (filter (\<lambda>(x, y, w, h, a). \<not> (mw \<le> w \<and> w \<le> Mw \<and> mh \<le> h \<and> h \<le> Mh)) rows))"
proof (induction rows arbitrary: boxes lg)
  case Nil
  then show ?case by simp
next
  case (Cons row rows)
  obtain x y w h a where row: "row = (x, y, w, h, a)" by (cases row)
  show ?case
  proof (cases "mw \<le> w \<and> w \<le> Mw \<and> mh \<le> h \<and> h \<le> Mh")
    case True
    then have "detect_step mw Mw mh Mh (boxes, lg) row = (boxes @ [new_detection x y w h a], lg)"
      by (simp add: detect_step_def row)
    then show ?thesis using True Cons.IH by (simp add: row)
  next
    case False
    then have "detect_step mw Mw mh Mh (boxes, lg) row
                 = (boxes, lg @ [Filtered_enemy w h mw Mw mh Mh])"
      by (auto simp: detect_step_def row)
    then show ?thesis using False Cons.IH by (simp add: row)
  qed
qed

text \<open>
  C5. Every detection that \<^verbatim>\<open>detect_all_pixels\<close> returns has its width and height inside
  the size bounds of the pattern. When the component analysis returns its rows, the
  detections are exactly the components inside the bounds, in order; each component
  outside them is left out and logged, and the method returns normally.
\<close>

theorem C5_blob_detector_bounds:
  "(\<forall>d \<in> set (fst (detect_all_pixels cv frame pattern)).
       fst (size_width pattern) \<le> width d \<and> width d \<le> snd (size_width pattern)
     \<and> fst (size_height pattern) \<le> height d \<and> height d \<le> snd (size_height pattern))
   \<and> (\<forall>stats. cv_components cv frame (color_lower_bgr pattern) (color_upper_bgr pattern) = Inr stats
        \<longrightarrow> fst (detect_all_pixels cv frame pattern) =
              map (\<lambda>(x, y, w, h, a). new_detection x y w h a)
                (filter (\<lambda>(x, y, w, h, a).
                            fst (size_width pattern) \<le> w \<and> w \<le> snd (size_width pattern)
                          \<and> fst (size_height pattern) \<le> h \<and> h \<le> snd (size_height pattern))
                        (tl stats))
          \<and> snd (detect_all_pixels cv frame pattern) =
              map (\<lambda>(x, y, w, h, a). Filtered_enemy w h (fst (size_width pattern))
                     (snd (size_width pattern)) (fst (size_height pattern)) (snd (size_height pattern)))
                (filter (\<lambda>(x, y, w, h, a).
                          \<not> (fst (size_width pattern) \<le> w \<and> w \<le> snd (size_width pattern)
                           \<and> fst (size_height pattern) \<le> h \<and> h \<le> snd (size_height pattern)))
                        (tl stats)))"
proof (cases "cv_components cv frame (color_lower_bgr pattern) (color_upper_bgr pattern)")
  case (Inl e)
  then show ?thesis by (simp add: detect_all_pixels_def)
next
  case (Inr stats)
  then show ?thesis
    by (auto simp: detect_all_pixels_def detect_fold Let_def new_detection_def)
qed

subsection \<open>\<^verbatim>\<open>predict\<close>\<close>

lemma detect_patterns_empty:
  "pxd_patterns self = [] \<Longrightarrow> detect_with_pxd_patterns cv self frame = ([], [])"
  by (simp add: detect_with_pxd_patterns_def)

lemma temporal_filtering_fst: "fst (apply_temporal_filtering h ds) = ds"
  by (simp add: apply_temporal_filtering_def)

lemma predict_roi:
  "roi (predict cv self frame b5 b7 b9) =
     detection_region (cached_bbox_width self) (cached_bbox_height self)
       (cached_adaptiveBoundingBox self) b7"
  by (simp add: predict_def Let_def case_prod_beta)

lemma predict_img0:
  "img0 (predict cv self frame b5 b7 b9) =
     (case roi (predict cv self frame b5 b7 b9) of (X1, Y1, X2, Y2) \<Rightarrow>
        let buf = (if cached_showBoundingBox self
                   then cv_rectangle cv frame (X1, Y1) (X2, Y2) (255, 255, 255) 1 else frame)
        in if Y2 > Y1 \<and> X2 > X1 then np_slice cv buf Y1 Y2 X1 X2 else buf)"
  by (simp add: predict_def Let_def case_prod_beta)

lemma predict_detected:
  "detected_objects (predict cv self frame b5 b7 b9) =
     fst (detect_with_pxd_patterns cv self (img0 (predict cv self frame b5 b7 b9)))"
  by (simp add: predict_def Let_def case_prod_beta)

lemma predict_best_target:
  "best_target (predict cv self frame b5 b7 b9) =
     (case detected_objects (predict cv self frame b5 b7 b9) of
        [] \<Rightarrow> None | t # ts \<Rightarrow> Some (max_by area t ts))"
  by (simp add: predict_def Let_def case_prod_beta temporal_filtering_fst)

lemma predict_lock_calls:
  "lock_calls (predict cv self frame b5 b7 b9) =
     (case best_target (predict cv self frame b5 b7 b9) of
        None \<Rightarrow> []
      | Some target \<Rightarrow>
          [(real_of_int (fst (target_center self (fst (roi (predict cv self frame b5 b7 b9)))
                               (fst (snd (roi (predict cv self frame b5 b7 b9)))) target)),
            real_of_int (snd (target_center self (fst (roi (predict cv self frame b5 b7 b9)))
                               (fst (snd (roi (predict cv self frame b5 b7 b9)))) target)),
            cached_speedX self, cached_speedY self)])"
  by (simp add: predict_def aim_at_target_def Let_def case_prod_beta split: option.splits)

lemma predict_rx_ry:
  "(rx (predict cv self frame b5 b7 b9), ry (predict cv self frame b5 b7 b9)) =
     (case lock_calls (predict cv self frame b5 b7 b9) of
        [] \<Rightarrow> (0, 0)
      | call # _ \<Rightarrow>
          (case call of (tx, ty, sx, sy) \<Rightarrow>
             manual_override (cached_manualOveride self) b9
               (cached_manualOverridePercentage self) (perfect_target_lock tx ty sx sy)))"
  by (simp add: predict_def aim_at_target_def Let_def case_prod_beta split: option.splits)




text \<open>
  C7. When the consolidated detection set of a cycle is empty, as it is whenever no
  pattern is loaded, no target is selected, \<^verbatim>\<open>perfect_target_lock\<close> is not called and
  the output vector is \<open>(0, 0)\<close>.
\<close>

theorem C7_no_detection_no_target:
  "(pxd_patterns self = [] \<longrightarrow> detected_objects (predict cv self frame b5 b7 b9) = [])
   \<and> (detected_objects (predict cv self frame b5 b7 b9) = [] \<longrightarrow>
        best_target (predict cv self frame b5 b7 b9) = None
      \<and> lock_calls (predict cv self frame b5 b7 b9) = []
      \<and> rx (predict cv self frame b5 b7 b9) = 0
      \<and> ry (predict cv self frame b5 b7 b9) = 0)"
proof (intro conjI impI)
  assume "pxd_patterns self = []"
  then show "detected_objects (predict cv self frame b5 b7 b9) = []"
    by (simp add: predict_detected detect_patterns_empty)
next
  assume e: "detected_objects (predict cv self frame b5 b7 b9) = []"
  then have n: "best_target (predict cv self frame b5 b7 b9) = None"
    by (simp add: predict_best_target)
  then show "best_target (predict cv self frame b5 b7 b9) = None" .
  from n have l: "lock_calls (predict cv self frame b5 b7 b9) = []"
    by (simp add: predict_lock_calls)
  then show "lock_calls (predict cv self frame b5 b7 b9) = []" .
  from l predict_rx_ry [of cv self frame b5 b7 b9]
  show "rx (predict cv self frame b5 b7 b9) = 0"
    and "ry (predict cv self frame b5 b7 b9) = 0"
    by simp_all
qed


lemma detect_patterns_colorConfidence:
  "detect_with_pxd_patterns cv (self\<lparr>cached_colorConfidence := c\<rparr>) img
     = detect_with_pxd_patterns cv self img"
  by (simp add: detect_with_pxd_patterns_def)

lemma draw_esp_colorConfidence:
  "draw_esp_elements cv (self\<lparr>cached_colorConfidence := c\<rparr>) img ds x y
     = draw_esp_elements cv self img ds x y"
proof -
  have "draw_esp_detection cv (self\<lparr>cached_colorConfidence := c\<rparr>) x y
          = draw_esp_detection cv self x y"
    by (intro ext) (simp add: draw_esp_detection_def)
  then show ?thesis by (simp add: draw_esp_elements_def)
qed

lemma aim_colorConfidence:
  "aim_at_target cv (self\<lparr>cached_colorConfidence := c\<rparr>) X1 Y1 img b7 b9 t
     = aim_at_target cv self X1 Y1 img b7 b9 t"
  by (simp add: aim_at_target_def target_center_def)

lemma predict_colorConfidence:
  "predict cv (self\<lparr>cached_colorConfidence := c\<rparr>) frame b5 b7 b9
     = predict cv self frame b5 b7 b9"
  by (simp add: predict_def Let_def case_prod_beta detect_patterns_colorConfidence
      draw_esp_colorConfidence aim_colorConfidence cong: option.case_cong)

text \<open>
  C10. The colour-confidence threshold has no effect: \<^verbatim>\<open>simple_detection_sort\<close>, the only
  reader of \<^verbatim>\<open>cached_colorConfidence\<close>, is not called by \<^verbatim>\<open>predict\<close> or \<^verbatim>\<open>process\<close>,
  and two cycles that differ only in the threshold give the same record of \<^verbatim>\<open>predict\<close>
  (detections, target, vector, image) and the same bytes.
\<close>

theorem C10_color_confidence_unused:
  "predict cv (self\<lparr>cached_colorConfidence := c\<rparr>) frame b5 b7 b9
     = predict cv self frame b5 b7 b9
   \<and> process cv (self\<lparr>cached_colorConfidence := c\<rparr>) settings_read frame gcvdata b5 b7 b9
     = process cv self settings_read frame gcvdata b5 b7 b9"
  by (simp add: process_def predict_colorConfidence)

lemma even_width:
  "even (w::int) \<and> 0 \<le> w \<and> w \<le> 1920 \<longrightarrow>
     min 1920 (960 + w div 2) - max 0 (960 - w div 2) = w
     \<and> max 0 (960 - w div 2) + min 1920 (960 + w div 2) = 1920"
  by (auto elim!: evenE)

lemma even_height:
  "even (h::int) \<and> 0 \<le> h \<and> h \<le> 1080 \<longrightarrow>
     min 1080 (540 + h div 2) - max 0 (540 - h div 2) = h
     \<and> max 0 (540 - h div 2) + min 1080 (540 + h div 2) = 1080"
  by (auto elim!: evenE)

text \<open>
  C8 (as amended). With \<open>W\<close> and \<open>H\<close> the configured width and height, or
  \<open>int(1.5 * width)\<close> and \<open>int(1.5 * height)\<close> when the adaptive mode is enabled and the
  aim trigger is active, the region is
  \<open>[960 - W div 2, 960 + W div 2] x [540 - H div 2, 540 + H div 2]\<close> clipped to
  \<open>[0, 1920] x [0, 1080]\<close>. It has the width \<open>W\<close> and is centred at 960 when \<open>W\<close> is even
  and \<open>0 \<le> W \<le> 1920\<close>, and likewise for the height. The detector reads the slice of
  the frame on that region, or the whole frame when the region has no positive width
  or height; in both cases the frame is the one with the outline of the box drawn on
  it when the box is shown. \<^verbatim>\<open>predict\<close> returns in every case.
\<close>

theorem C8_detection_region:
  "\<exists>W H X1 Y1 X2 Y2.
      W = (if cached_adaptiveBoundingBox self \<and> b7 > 0
           then py_int (real_of_int (cached_bbox_width self) * 1.5) else cached_bbox_width self)
    \<and> H = (if cached_adaptiveBoundingBox self \<and> b7 > 0
           then py_int (real_of_int (cached_bbox_height self) * 1.5) else cached_bbox_height self)
    \<and> X1 = max 0 (960 - W div 2) \<and> Y1 = max 0 (540 - H div 2)
    \<and> X2 = min 1920 (960 + W div 2) \<and> Y2 = min 1080 (540 + H div 2)
    \<and> roi (predict cv self frame b5 b7 b9) = (X1, Y1, X2, Y2)
    \<and> img0 (predict cv self frame b5 b7 b9) =
         (let buf = (if cached_showBoundingBox self
                     then cv_rectangle cv frame (X1, Y1) (X2, Y2) (255, 255, 255) 1 else frame)
          in if Y2 > Y1 \<and> X2 > X1 then np_slice cv buf Y1 Y2 X1 X2 else buf)
    \<and> (even W \<and> 0 \<le> W \<and> W \<le> 1920 \<longrightarrow> X2 - X1 = W \<and> X1 + X2 = 1920)
    \<and> (even H \<and> 0 \<le> H \<and> H \<le> 1080 \<longrightarrow> Y2 - Y1 = H \<and> Y1 + Y2 = 1080)"
proof -
  let ?W = "if cached_adaptiveBoundingBox self \<and> b7 > 0
           then py_int (real_of_int (cached_bbox_width self) * 1.5) else cached_bbox_width self"
  let ?H = "if cached_adaptiveBoundingBox self \<and> b7 > 0
           then py_int (real_of_int (cached_bbox_height self) * 1.5) else cached_bbox_height self"
  let ?X1 = "max 0 (960 - ?W div 2)" and ?Y1 = "max 0 (540 - ?H div 2)"
  let ?X2 = "min 1920 (960 + ?W div 2)" and ?Y2 = "min 1080 (540 + ?H div 2)"
  have r: "roi (predict cv self frame b5 b7 b9) = (?X1, ?Y1, ?X2, ?Y2)"
    by (simp add: predict_roi detection_region_def Let_def)
  have i: "img0 (predict cv self frame b5 b7 b9) =
         (let buf = (if cached_showBoundingBox self
                     then cv_rectangle cv frame (?X1, ?Y1) (?X2, ?Y2) (255, 255, 255) 1 else frame)
          in if ?Y2 > ?Y1 \<and> ?X2 > ?X1 then np_slice cv buf ?Y1 ?Y2 ?X1 ?X2 else buf)"
    by (simp only: predict_img0 r prod.case)
  have w: "even ?W \<and> 0 \<le> ?W \<and> ?W \<le> 1920 \<longrightarrow> ?X2 - ?X1 = ?W \<and> ?X1 + ?X2 = 1920"
    by (rule even_width)
  have h: "even ?H \<and> 0 \<le> ?H \<and> ?H \<le> 1080 \<longrightarrow> ?Y2 - ?Y1 = ?H \<and> ?Y1 + ?Y2 = 1080"
    by (rule even_height)
  show ?thesis using r i w h by blast
qed

text \<open>
  The claim as first stated gives the region the configured width and height. A width
  of 721 and a height of 481 give a region of 720 by 480; a box of 1 by 1 gives an
  empty region, so the detector reads the whole frame.
\<close>

theorem C8_odd_size_counterexample:
  "detection_region 721 481 False 0 = (600, 300, 1320, 780)
   \<and> (1320 :: int) - 600 \<noteq> 721 \<and> (780 :: int) - 300 \<noteq> 481
   \<and> detection_region 1 1 False 0 = (960, 540, 960, 540)
   \<and> detection_region 721 481 True 1 = (420, 180, 1500, 900)"
  by (simp add: detection_region_def py_int_def)

subsection \<open>A cycle on a pixel grid\<close>

lemma blob_components:
  "grid_components (grid_slice blob_frame 534 546 954 966) (61, 0, 102) (255, 45, 254)
     = Inr [(0, 0, 12, 12, 119), (0, 0, 5, 5, 25)]"
  by code_simp

lemma boxed_blob_components:
  "grid_components
     (grid_slice (grid_outline blob_frame (954, 534) (966, 546) (255, 255, 255)) 534 546 954 966)
     (61, 0, 102) (255, 45, 254)
     = Inr [(0, 0, 12, 12, 128), (1, 1, 4, 4, 16)]"
  by code_simp

lemma small_region: "detection_region 12 12 False b7 = (954, 534, 966, 546)"
  by (simp add: detection_region_def)

lemma detect_blob:
  "detect_all_pixels (on_grid cv) (grid_slice blob_frame 534 546 954 966) (loaded_pattern n)
     = ([new_detection 0 0 5 5 25], [])"
  by (simp add: detect_all_pixels_def on_grid_def loaded_pattern_def blob_components
      detect_step_def)

lemma detect_boxed_blob:
  "detect_all_pixels (on_grid cv)
     (grid_slice (grid_outline blob_frame (954, 534) (966, 546) (255, 255, 255)) 534 546 954 966)
     (loaded_pattern n)
     = ([], [Filtered_enemy 4 4 5 12 5 12])"
  by (simp add: detect_all_pixels_def on_grid_def loaded_pattern_def boxed_blob_components
      detect_step_def)

lemma cluster_single: "cluster_similar_enemies [d] = [d]"
  by (simp add: cl_eval)

lemma detect_patterns_blob:
  assumes "pxd_patterns self = [loaded_pattern n]"
  shows "detect_with_pxd_patterns (on_grid cv) self (grid_slice blob_frame 534 546 954 966)
     = ([new_detection 0 0 5 5 25], [Found_raw_enemies 1, Reduced_to_clusters 1 1])"
  by (simp add: detect_with_pxd_patterns_def assms detect_blob cluster_single)

lemma detect_patterns_boxed_blob:
  assumes "pxd_patterns self = [loaded_pattern n]"
  shows "detect_with_pxd_patterns (on_grid cv) self
     (grid_slice (grid_outline blob_frame (954, 534) (966, 546) (255, 255, 255)) 534 546 954 966)
     = ([], [Filtered_enemy 4 4 5 12 5 12])"
  by (simp add: detect_with_pxd_patterns_def assms detect_boxed_blob)

lemma img0_hidden:
  "img0 (predict (on_grid cv) (small_box_state\<lparr>cached_showBoundingBox := False\<rparr>) blob_frame b5 b7 b9)
     = grid_slice blob_frame 534 546 954 966"
  by (simp add: predict_img0 predict_roi small_box_state_def initial_state_def small_region on_grid_def)

lemma img0_shown:
  "img0 (predict (on_grid cv) small_box_state blob_frame b5 b7 b9)
     = grid_slice (grid_outline blob_frame (954, 534) (966, 546) (255, 255, 255)) 534 546 954 966"
  by (simp add: predict_img0 predict_roi small_box_state_def initial_state_def small_region on_grid_def)

lemma detected_hidden:
  "detected_objects (predict (on_grid cv) (small_box_state\<lparr>cached_showBoundingBox := False\<rparr>)
      blob_frame b5 b7 b9) = [new_detection 0 0 5 5 25]"
  unfolding predict_detected img0_hidden
  by (subst detect_patterns_blob [of _ "''enemy.pxd''"]) (simp_all add: small_box_state_def)

lemma detected_shown:
  "detected_objects (predict (on_grid cv) small_box_state blob_frame b5 b7 b9) = []"
  unfolding predict_detected img0_shown
  by (subst detect_patterns_boxed_blob [of _ "''enemy.pxd''"]) (simp_all add: small_box_state_def)

lemma best_target_hidden:
  "best_target (predict (on_grid cv) (small_box_state\<lparr>cached_showBoundingBox := False\<rparr>)
      blob_frame b5 b7 b9) = Some (new_detection 0 0 5 5 25)"
  by (simp add: predict_best_target detected_hidden max_by_Nil)

lemma roi_small:
  "roi (predict cv (small_box_state\<lparr>cached_showBoundingBox := s\<rparr>) frame b5 b7 b9)
     = (954, 534, 966, 546)"
  by (simp add: predict_roi small_box_state_def initial_state_def small_region)

lemma target_center_blob:
  "target_center (small_box_state\<lparr>cached_showBoundingBox := s\<rparr>) 954 534 (new_detection 0 0 5 5 25)
     = (956, 536)"
  by (simp add: target_center_def new_detection_def rectangleScaling_def py_int_def
      small_box_state_def initial_state_def)

lemma lock_blob: "perfect_target_lock 956 536 9 9 = (- (72 / 100), - (72 / 100))"
  by (simp add: perfect_target_lock_def Let_def sqrt_less_2_iff)

lemma lock_calls_hidden:
  "lock_calls (predict (on_grid cv) (small_box_state\<lparr>cached_showBoundingBox := False\<rparr>)
      blob_frame b5 b7 b9) = [(956, 536, 9, 9)]"
  by (simp add: predict_lock_calls best_target_hidden roi_small target_center_blob)
     (simp add: small_box_state_def initial_state_def)

lemma vector_hidden:
  "(rx (predict (on_grid cv) (small_box_state\<lparr>cached_showBoundingBox := False\<rparr>)
          blob_frame b5 b7 b9),
    ry (predict (on_grid cv) (small_box_state\<lparr>cached_showBoundingBox := False\<rparr>)
          blob_frame b5 b7 b9))
     = manual_override True b9 50 (- (72 / 100), - (72 / 100))"
  unfolding predict_rx_ry lock_calls_hidden
  by (simp add: lock_blob small_box_state_def initial_state_def)

lemma vector_shown:
  "rx (predict (on_grid cv) small_box_state blob_frame b5 b7 b9) = 0
   \<and> ry (predict (on_grid cv) small_box_state blob_frame b5 b7 b9) = 0"
proof -
  have "best_target (predict (on_grid cv) small_box_state blob_frame b5 b7 b9) = None"
    by (simp add: predict_best_target detected_shown)
  then have "lock_calls (predict (on_grid cv) small_box_state blob_frame b5 b7 b9) = []"
    by (simp add: predict_lock_calls)
  then show ?thesis
    using predict_rx_ry [of "on_grid cv" small_box_state blob_frame b5 b7 b9] by simp
qed

text \<open>The overlays that are drawn after the detection do not feed back.\<close>

lemma detect_patterns_only_patterns:
  "pxd_patterns self' = pxd_patterns self \<Longrightarrow>
     detect_with_pxd_patterns cv self' img = detect_with_pxd_patterns cv self img"
  by (simp add: detect_with_pxd_patterns_def)

lemma esp_flags_do_not_feed_back:
  assumes "self' = self\<lparr>cached_esp_lines_enabled := a, cached_esp_box_enabled := b,
                         cached_crosshair_enabled := c, cached_show_distance_text := d,
                         cached_enemy_location_enabled := e\<rparr>"
  shows "detected_objects (predict cv self' frame b5 b7 b9)
           = detected_objects (predict cv self frame b5 b7 b9)"
    and "best_target (predict cv self' frame b5 b7 b9)
           = best_target (predict cv self frame b5 b7 b9)"
    and "rx (predict cv self' frame b5 b7 b9) = rx (predict cv self frame b5 b7 b9)"
    and "ry (predict cv self' frame b5 b7 b9) = ry (predict cv self frame b5 b7 b9)"
proof -
  have r: "roi (predict cv self' frame b5 b7 b9) = roi (predict cv self frame b5 b7 b9)"
    by (simp add: predict_roi assms)
  have i: "img0 (predict cv self' frame b5 b7 b9) = img0 (predict cv self frame b5 b7 b9)"
    unfolding predict_img0 r by (simp add: assms)
  show d: "detected_objects (predict cv self' frame b5 b7 b9)
           = detected_objects (predict cv self frame b5 b7 b9)"
    unfolding predict_detected i
    using detect_patterns_only_patterns [of self' self cv] by (simp add: assms)
  show t: "best_target (predict cv self' frame b5 b7 b9)
           = best_target (predict cv self frame b5 b7 b9)"
    unfolding predict_best_target d ..
  have tc: "target_center self' = target_center self"
    by (intro ext) (simp add: target_center_def assms)
  have l: "lock_calls (predict cv self' frame b5 b7 b9)
             = lock_calls (predict cv self frame b5 b7 b9)"
    unfolding predict_lock_calls t r tc by (simp add: assms cong: option.case_cong)
  have v: "(rx (predict cv self' frame b5 b7 b9), ry (predict cv self' frame b5 b7 b9))
         = (rx (predict cv self frame b5 b7 b9), ry (predict cv self frame b5 b7 b9))"
    unfolding predict_rx_ry l by (simp add: assms cong: list.case_cong)
  then show "rx (predict cv self' frame b5 b7 b9) = rx (predict cv self frame b5 b7 b9)"
    and "ry (predict cv self' frame b5 b7 b9) = ry (predict cv self frame b5 b7 b9)"
    by simp_all
qed

text \<open>
  C9. The claim is that the drawing flags do not change the detections, the target or
  the vector. The code draws the bounding box into the frame before the detector reads
  its slice of the same buffer. On \<open>blob_frame\<close> with a 12 x 12 box, the blob touches the
  top left corner of the region: with the box hidden it is detected (5 x 5) and the
  vector is \<open>(-0.72, -0.72)\<close>; with the box shown the outline overwrites one row and one
  column of it, the remaining 4 x 4 pixels are below the minimal size, nothing is
  detected and the vector is \<open>(0, 0)\<close>.
\<close>

theorem C9_bounding_box_feedback:
  "\<forall>cv. detected_objects (predict (on_grid cv) small_box_state blob_frame 0 0 0) = []
      \<and> best_target (predict (on_grid cv) small_box_state blob_frame 0 0 0) = None
      \<and> rx (predict (on_grid cv) small_box_state blob_frame 0 0 0) = 0
      \<and> ry (predict (on_grid cv) small_box_state blob_frame 0 0 0) = 0
      \<and> detected_objects
           (predict (on_grid cv) (small_box_state\<lparr>cached_showBoundingBox := False\<rparr>)
              blob_frame 0 0 0) = [new_detection 0 0 5 5 25]
      \<and> best_target
           (predict (on_grid cv) (small_box_state\<lparr>cached_showBoundingBox := False\<rparr>)
              blob_frame 0 0 0) = Some (new_detection 0 0 5 5 25)
      \<and> rx (predict (on_grid cv) (small_box_state\<lparr>cached_showBoundingBox := False\<rparr>)
              blob_frame 0 0 0) = - (72 / 100)
      \<and> ry (predict (on_grid cv) (small_box_state\<lparr>cached_showBoundingBox := False\<rparr>)
              blob_frame 0 0 0) = - (72 / 100)"
proof
  fix cv :: "image cv2"
  have v: "rx (predict (on_grid cv) (small_box_state\<lparr>cached_showBoundingBox := False\<rparr>)
              blob_frame 0 0 0) = - (72 / 100)
      \<and> ry (predict (on_grid cv) (small_box_state\<lparr>cached_showBoundingBox := False\<rparr>)
              blob_frame 0 0 0) = - (72 / 100)"
    using vector_hidden [of cv 0 0 0] by (simp add: manual_override_def)
  have n: "best_target (predict (on_grid cv) small_box_state blob_frame 0 0 0) = None"
    by (simp add: predict_best_target detected_shown)
  show "detected_objects (predict (on_grid cv) small_box_state blob_frame 0 0 0) = []
      \<and> best_target (predict (on_grid cv) small_box_state blob_frame 0 0 0) = None
      \<and> rx (predict (on_grid cv) small_box_state blob_frame 0 0 0) = 0
      \<and> ry (predict (on_grid cv) small_box_state blob_frame 0 0 0) = 0
      \<and> detected_objects
           (predict (on_grid cv) (small_box_state\<lparr>cached_showBoundingBox := False\<rparr>)
              blob_frame 0 0 0) = [new_detection 0 0 5 5 25]
      \<and> best_target
           (predict (on_grid cv) (small_box_state\<lparr>cached_showBoundingBox := False\<rparr>)
              blob_frame 0 0 0) = Some (new_detection 0 0 5 5 25)
      \<and> rx (predict (on_grid cv) (small_box_state\<lparr>cached_showBoundingBox := False\<rparr>)
              blob_frame 0 0 0) = - (72 / 100)
      \<and> ry (predict (on_grid cv) (small_box_state\<lparr>cached_showBoundingBox := False\<rparr>)
              blob_frame 0 0 0) = - (72 / 100)"
    using v n vector_shown [of cv 0 0 0] detected_shown [of cv 0 0 0]
      detected_hidden [of cv 0 0 0] best_target_hidden [of cv 0 0 0]
    by blast
qed

theorem C9_bounding_box_feedback_witness:
  "\<forall>cv. rx (predict (on_grid cv) small_box_state blob_frame 0 0 0)
        \<noteq> rx (predict (on_grid cv) (small_box_state\<lparr>cached_showBoundingBox := False\<rparr>)
              blob_frame 0 0 0)"
  using C9_bounding_box_feedback by simp

subsection \<open>The theorems at concrete inputs\<close>

theorem C5_blob_detector_bounds_witness:
  "\<forall>cv. fst (detect_all_pixels (on_grid cv) (grid_slice blob_frame 534 546 954 966)
               (loaded_pattern ''enemy.pxd'')) = [new_detection 0 0 5 5 25]
      \<and> width (new_detection 0 0 5 5 25) = 5 \<and> height (new_detection 0 0 5 5 25) = 5
      \<and> size_width (loaded_pattern ''enemy.pxd'') = (5, 12)
      \<and> size_height (loaded_pattern ''enemy.pxd'') = (5, 12)
      \<and> detect_all_pixels (on_grid cv)
           (grid_slice (grid_outline blob_frame (954, 534) (966, 546) (255, 255, 255))
              534 546 954 966)
           (loaded_pattern ''enemy.pxd'') = ([], [Filtered_enemy 4 4 5 12 5 12])"
proof
  fix cv :: "image cv2"
  have d1: "detect_all_pixels (on_grid cv) (grid_slice blob_frame 534 546 954 966)
               (loaded_pattern ''enemy.pxd'') = ([new_detection 0 0 5 5 25], [])"
    by (rule detect_blob)
  have d2: "detect_all_pixels (on_grid cv)
           (grid_slice (grid_outline blob_frame (954, 534) (966, 546) (255, 255, 255))
              534 546 954 966)
           (loaded_pattern ''enemy.pxd'') = ([], [Filtered_enemy 4 4 5 12 5 12])"
    by (rule detect_boxed_blob)
  have w: "width (new_detection 0 0 5 5 25) = 5" "height (new_detection 0 0 5 5 25) = 5"
    by (simp_all add: new_detection_def)
  have p: "size_width (loaded_pattern ''enemy.pxd'') = (5, 12)"
    "size_height (loaded_pattern ''enemy.pxd'') = (5, 12)"
    by (simp_all add: loaded_pattern_def)
  show "fst (detect_all_pixels (on_grid cv) (grid_slice blob_frame 534 546 954 966)
               (loaded_pattern ''enemy.pxd'')) = [new_detection 0 0 5 5 25]
      \<and> width (new_detection 0 0 5 5 25) = 5 \<and> height (new_detection 0 0 5 5 25) = 5
      \<and> size_width (loaded_pattern ''enemy.pxd'') = (5, 12)
      \<and> size_height (loaded_pattern ''enemy.pxd'') = (5, 12)
      \<and> detect_all_pixels (on_grid cv)
           (grid_slice (grid_outline blob_frame (954, 534) (966, 546) (255, 255, 255))
              534 546 954 966)
           (loaded_pattern ''enemy.pxd'') = ([], [Filtered_enemy 4 4 5 12 5 12])"
    using C5_blob_detector_bounds [of "on_grid cv" "grid_slice blob_frame 534 546 954 966"
        "loaded_pattern ''enemy.pxd''"] d1 d2 w p
    by simp
qed

theorem C7_no_detection_no_target_witness:
  "\<forall>cv. pxd_patterns initial_state = []
      \<and> detected_objects (predict (on_grid cv) initial_state blob_frame 0 0 0) = []
      \<and> detected_objects (predict (on_grid cv) small_box_state blob_frame 0 0 0) = []
      \<and> best_target (predict (on_grid cv) small_box_state blob_frame 0 0 0) = None
      \<and> lock_calls (predict (on_grid cv) small_box_state blob_frame 0 0 0) = []
      \<and> rx (predict (on_grid cv) small_box_state blob_frame 0 0 0) = 0
      \<and> ry (predict (on_grid cv) small_box_state blob_frame 0 0 0) = 0"
proof
  fix cv :: "image cv2"
  have p: "pxd_patterns initial_state = []" by (simp add: initial_state_def)
  show "pxd_patterns initial_state = []
      \<and> detected_objects (predict (on_grid cv) initial_state blob_frame 0 0 0) = []
      \<and> detected_objects (predict (on_grid cv) small_box_state blob_frame 0 0 0) = []
      \<and> best_target (predict (on_grid cv) small_box_state blob_frame 0 0 0) = None
      \<and> lock_calls (predict (on_grid cv) small_box_state blob_frame 0 0 0) = []
      \<and> rx (predict (on_grid cv) small_box_state blob_frame 0 0 0) = 0
      \<and> ry (predict (on_grid cv) small_box_state blob_frame 0 0 0) = 0"
    using C7_no_detection_no_target [of initial_state "on_grid cv" blob_frame 0 0 0]
      C7_no_detection_no_target [of small_box_state "on_grid cv" blob_frame 0 0 0]
      p detected_shown [of cv 0 0 0]
    by simp
qed


theorem C8_detection_region_witness:
  "\<forall>cv. roi (predict (on_grid cv) small_box_state blob_frame 0 0 0) = (954, 534, 966, 546)
      \<and> img0 (predict (on_grid cv) small_box_state blob_frame 0 0 0)
          = grid_slice (grid_outline blob_frame (954, 534) (966, 546) (255, 255, 255))
              534 546 954 966
      \<and> even (12 :: int) \<and> (966 :: int) - 954 = 12
      \<and> roi (predict (on_grid cv) (initial_state\<lparr>cached_adaptiveBoundingBox := True\<rparr>)
                blob_frame 0 1 0) = (420, 180, 1500, 900)"
proof
  fix cv :: "image cv2"
  show "roi (predict (on_grid cv) small_box_state blob_frame 0 0 0) = (954, 534, 966, 546)
      \<and> img0 (predict (on_grid cv) small_box_state blob_frame 0 0 0)
          = grid_slice (grid_outline blob_frame (954, 534) (966, 546) (255, 255, 255))
              534 546 954 966
      \<and> even (12 :: int) \<and> (966 :: int) - 954 = 12
      \<and> roi (predict (on_grid cv) (initial_state\<lparr>cached_adaptiveBoundingBox := True\<rparr>)
                blob_frame 0 1 0) = (420, 180, 1500, 900)"
    using C8_detection_region [of small_box_state 0 "on_grid cv" blob_frame 0 0]
      C8_detection_region [of "initial_state\<lparr>cached_adaptiveBoundingBox := True\<rparr>" 1
         "on_grid cv" blob_frame 0 0]
    by (simp add: small_box_state_def initial_state_def on_grid_def py_int_def)
qed

theorem C10_color_confidence_unused_witness:
  "\<forall>cv. rx (predict (on_grid cv)
             (small_box_state\<lparr>cached_showBoundingBox := False, cached_colorConfidence := 99 / 100\<rparr>)
             blob_frame 0 0 0) = - (72 / 100)
      \<and> rx (predict (on_grid cv) (small_box_state\<lparr>cached_showBoundingBox := False\<rparr>)
             blob_frame 0 0 0) = - (72 / 100)"
proof
  fix cv :: "image cv2"
  have v: "rx (predict (on_grid cv) (small_box_state\<lparr>cached_showBoundingBox := False\<rparr>)
              blob_frame 0 0 0) = - (72 / 100)"
    using vector_hidden [of cv 0 0 0] by (simp add: manual_override_def)
  show "rx (predict (on_grid cv)
             (small_box_state\<lparr>cached_showBoundingBox := False, cached_colorConfidence := 99 / 100\<rparr>)
             blob_frame 0 0 0) = - (72 / 100)
      \<and> rx (predict (on_grid cv) (small_box_state\<lparr>cached_showBoundingBox := False\<rparr>)
             blob_frame 0 0 0) = - (72 / 100)"
    using C10_color_confidence_unused [where cv = "on_grid cv"
        and self = "small_box_state\<lparr>cached_showBoundingBox := False\<rparr>" and c = "99 / 100"
        and frame = blob_frame and ?b5.0 = 0 and ?b7.0 = 0 and ?b9.0 = 0]
      v
    by simp
qed

end
